theory Spec2Isabelle
  imports Main "HOL-Library.Word"
begin

section \<open>JavaScript values and strings\<close>

text \<open>
  The fields of a parsed JSON request body are JavaScript values.  The model keeps the
  scalar ones: \<open>undefined\<close> (the field is absent), \<open>null\<close>, booleans, integral
  numbers and strings.  A string is a list of code units below 256.  A number is a signed
  54-bit integer, read with \<open>sint\<close>: the range from \<open>-2^53\<close> to \<open>2^53 - 1\<close>, every
  member of which a double holds exactly and \<open>String\<close> prints in plain decimal.
\<close>

type_synonym js_int = "54 word"

datatype jsval = JUndefined | JNull | JBool bool | JNum js_int | JStr string

datatype js_error = TypeError | DbError

text \<open>Truthiness, as tested by \<open>!x\<close>, \<open>x && y\<close>, \<open>x || y\<close> and \<open>x ? a : b\<close>.\<close>

fun truthy :: "jsval \<Rightarrow> bool" where
  "truthy JUndefined = False"
| "truthy JNull = False"
| "truthy (JBool b) = b"
| "truthy (JNum n) = (n \<noteq> 0)"
| "truthy (JStr s) = (s \<noteq> [])"

text \<open>The white space and line terminators that \<open>String.prototype.trim\<close> strips
  (those below 256: TAB, LF, VT, FF, CR, SP, NBSP).\<close>

definition is_js_space :: "char \<Rightarrow> bool" where
  "is_js_space c = (c \<in> set [CHR 0x09, CHR 0x0A, CHR 0x0B, CHR 0x0C, CHR 0x0D, CHR 0x20, CHR 0xA0])"

definition js_trim :: "string \<Rightarrow> string" where
  "js_trim s = rev (dropWhile is_js_space (rev (dropWhile is_js_space s)))"

text \<open>\<open>v.trim()\<close>: defined on strings only; on any other value the property lookup
  gives no function (or fails outright) and the call throws a TypeError.\<close>

fun trim_val :: "jsval \<Rightarrow> js_error + string" where
  "trim_val (JStr s) = Inr (js_trim s)"
| "trim_val v = Inl TypeError"

text \<open>\<open>s.split(d)\<close> for a one-character separator: never the empty array.\<close>

fun split_on :: "char \<Rightarrow> string \<Rightarrow> string list" where
  "split_on d [] = [[]]"
| "split_on d (c # cs) =
     (if c = d then [] # split_on d cs
      else (case split_on d cs of
              [] \<Rightarrow> [[c]]
            | p # ps \<Rightarrow> (c # p) # ps))"

definition startsWith :: "string \<Rightarrow> string \<Rightarrow> bool" where
  "startsWith s p = (take (length p) s = p)"

text \<open>\<open>xs[1]\<close>: \<open>undefined\<close> (here \<open>None\<close>) when the array is too short.\<close>

fun index1 :: "'a list \<Rightarrow> 'a option" where
  "index1 (x # y # ys) = Some y"
| "index1 xs = None"

text \<open>Decimal digits of a natural number, for \<open>String(n)\<close>.\<close>

function dec_nat :: "nat \<Rightarrow> string" where
  "dec_nat n =
     (if n < 10 then [char_of (48 + n)]
      else dec_nat (n div 10) @ [char_of (48 + n mod 10)])"
  by pat_completeness auto
termination
  by (relation "measure (\<lambda>n. n)") auto

declare dec_nat.simps [simp del]

text \<open>\<open>String(v)\<close>: the first step of assigning \<open>v\<close> to an entry of \<open>process.env\<close>,
  and what the schema's \<open>String\<close> type casts a scalar to.\<close>

fun js_to_string :: "jsval \<Rightarrow> string" where
  "js_to_string JUndefined = ''undefined''"
| "js_to_string JNull = ''null''"
| "js_to_string (JBool b) = (if b then ''true'' else ''false'')"
| "js_to_string (JNum n) =
     (if sint n < 0 then CHR ''-'' # dec_nat (nat (- sint n)) else dec_nat (nat (sint n)))"
| "js_to_string (JStr s) = s"

text \<open>\<open>process.env.X = v\<close>: the value is converted to a string and handed to the
  operating system as a C string, which ends at the first NUL; what a later read of
  \<open>process.env.X\<close> gives.\<close>

definition env_assign :: "jsval \<Rightarrow> string" where
  "env_assign v = takeWhile (\<lambda>c. c \<noteq> CHR 0x00) (js_to_string v)"

text \<open>\<open>v.length < 6\<close>: a string has its number of code units; a number or a boolean has
  no \<open>length\<close>, and \<open>undefined < 6\<close> is false; on \<open>undefined\<close> and \<open>null\<close> the
  property access throws.\<close>

fun length_lt :: "jsval \<Rightarrow> nat \<Rightarrow> js_error + bool" where
  "length_lt (JStr s) k = Inr (length s < k)"
| "length_lt (JNum n) k = Inr False"
| "length_lt (JBool b) k = Inr False"
| "length_lt v k = Inl TypeError"

section \<open>Session store\<close>

record session =
  createdAt :: int
  expires :: int

type_synonym sessions = "string \<rightharpoonup> session"

definition SESSION_TTL_MS :: int where
  "SESSION_TTL_MS = 1000 * 60 * 60"

text \<open>\<open>createSession\<close>; \<open>rid\<close> is the hexadecimal string of the 24 random bytes and
  \<open>now\<close> the clock.\<close>

definition createSession :: "int \<Rightarrow> string \<Rightarrow> sessions \<Rightarrow> string \<times> sessions" where
  "createSession now rid st =
     (rid, st(rid \<mapsto> \<lparr>createdAt = now, expires = now + SESSION_TTL_MS\<rparr>))"

text \<open>\<open>isSessionValid\<close>; the argument is \<open>None\<close> when the caller passes \<open>undefined\<close>.
  The result is the returned boolean and the store after the call.\<close>

definition isSessionValid :: "int \<Rightarrow> string option \<Rightarrow> sessions \<Rightarrow> bool \<times> sessions" where
  "isSessionValid now id0 st =
     (case id0 of
        None \<Rightarrow> (False, st)
      | Some sid \<Rightarrow>
          if sid = [] then (False, st)
          else (case st sid of
                  None \<Rightarrow> (False, st)
                | Some s \<Rightarrow>
                    if now > expires s then (False, st(sid := None))
                    else (True, st)))"

text \<open>The sliding refresh of \<open>requireAdminAuth\<close> (the three statements after the
  validity check): read the entry, set its \<open>expires\<close>, store it back.  On an absent
  entry the assignment to a field of \<open>undefined\<close> throws and nothing is stored.\<close>

definition touch :: "int \<Rightarrow> string \<Rightarrow> sessions \<Rightarrow> js_error + sessions" where
  "touch now sid st =
     (case st sid of
        None \<Rightarrow> Inl TypeError
      | Some sess \<Rightarrow> Inr (st(sid \<mapsto> sess\<lparr>expires := now + SESSION_TTL_MS\<rparr>)))"

text \<open>The revocation of the logout handler:
  \<open>if (sid && SESSIONS.has(sid)) SESSIONS.delete(sid)\<close>.\<close>

definition revoke :: "string option \<Rightarrow> sessions \<Rightarrow> sessions" where
  "revoke id0 st =
     (case id0 of
        None \<Rightarrow> st
      | Some sid \<Rightarrow> if sid \<noteq> [] \<and> st sid \<noteq> None then st(sid := None) else st)"

section \<open>Requests and responses\<close>

record request =
  x_api_key :: "string option"
  cookie :: "string option"
  body :: "(string \<rightharpoonup> jsval) option"

datatype payload =
    ErrorBody string
  | OkBody
  | OkMessage string
  | CreatedBody string

datatype cookie_effect = NoCookie | SetCookie string | ClearCookie

record response =
  status :: nat
  payload :: payload
  cookie_out :: cookie_effect

datatype gate = Next | Respond response

definition unauthorized :: response where
  "unauthorized = \<lparr>status = 401, payload = ErrorBody ''unauthorized'', cookie_out = NoCookie\<rparr>"

definition internal_error :: response where
  "internal_error =
     \<lparr>status = 500, payload = ErrorBody ''internal server error'', cookie_out = NoCookie\<rparr>"

text \<open>A property of the body object; \<open>undefined\<close> when the body has no such field.\<close>

definition js_get :: "(string \<rightharpoonup> jsval) \<Rightarrow> string \<Rightarrow> jsval" where
  "js_get b k = (case b k of None \<Rightarrow> JUndefined | Some v \<Rightarrow> v)"

text \<open>\<open>cookieHeader.split(';').map(c => c.trim()).find(c => c.startsWith('admin_sid='))\<close>
  with \<open>cookieHeader = req.get('cookie') || ''\<close>.\<close>

definition admin_sid_cookie :: "request \<Rightarrow> string option" where
  "admin_sid_cookie req =
     (let cookieHeader = (case cookie req of None \<Rightarrow> [] | Some h \<Rightarrow> h)
      in find (\<lambda>c. startsWith c ''admin_sid='') (map js_trim (split_on CHR '';'' cookieHeader)))"

text \<open>\<open>match.split('=')[1]\<close>\<close>

definition sid_of :: "string \<Rightarrow> string option" where
  "sid_of m = index1 (split_on CHR ''='' m)"

section \<open>Auth gate\<close>

text \<open>\<open>key && key === ADMIN_KEY\<close> for \<open>key = req.get('x-api-key')\<close>\<close>

definition api_key_ok :: "string \<Rightarrow> request \<Rightarrow> bool" where
  "api_key_ok admin_key req =
     (case x_api_key req of None \<Rightarrow> False | Some key \<Rightarrow> key \<noteq> [] \<and> key = admin_key)"

text \<open>\<open>requireAdminAuth\<close>, with the constant \<open>ADMIN_KEY\<close> as its first argument.\<close>

definition requireAdminAuth :: "string \<Rightarrow> int \<Rightarrow> request \<Rightarrow> sessions \<Rightarrow> gate \<times> sessions" where
  "requireAdminAuth admin_key now req st =
     (if api_key_ok admin_key req
      then (Next, st)
      else (case admin_sid_cookie req of
              None \<Rightarrow> (Respond unauthorized, st)
            | Some m \<Rightarrow>
                (let sid = sid_of m;
                     (valid, st1) = isSessionValid now sid st
                 in if \<not> valid then (Respond unauthorized, st1)
                    else (case sid of
                            None \<Rightarrow> (Respond internal_error, st1)
                          | Some t \<Rightarrow>
                              (case touch now t st1 of
                                 Inl err \<Rightarrow> (Respond internal_error, st1)
                               | Inr st2 \<Rightarrow> (Next, st2))))))"

text \<open>\<open>POST /admin/logout\<close>\<close>

definition admin_logout :: "request \<Rightarrow> sessions \<Rightarrow> response \<times> sessions" where
  "admin_logout req st =
     (let st1 = (case admin_sid_cookie req of
                   None \<Rightarrow> st
                 | Some m \<Rightarrow> revoke (sid_of m) st)
      in (\<lparr>status = 200, payload = OkBody, cookie_out = ClearCookie\<rparr>, st1))"

section \<open>Process environment, datastore and server state\<close>

record process_env =
  MONGODB_URI :: "string option"
  PORT :: "string option"
  ADMIN_API_KEY :: "string option"
  ADMIN_PANEL_PASSWORD :: "string option"

text \<open>\<open>process.env.X || d\<close> for a string default.\<close>

definition env_or :: "string option \<Rightarrow> string \<Rightarrow> string" where
  "env_or v d = (case v of None \<Rightarrow> d | Some s \<Rightarrow> if s = [] then d else s)"

record config =
  ADMIN_KEY :: string
  port :: jsval

datatype startup_result = Exit nat | Listening config

text \<open>The top-level statements of the server that read the environment: the exit when
  \<open>MONGODB_URI\<close> is missing, \<open>port\<close> and \<open>ADMIN_KEY\<close>.\<close>

definition startup :: "process_env \<Rightarrow> startup_result" where
  "startup e =
     (if (case MONGODB_URI e of None \<Rightarrow> True | Some mongoUri \<Rightarrow> mongoUri = [])
      then Exit 1
      else Listening
             \<lparr>ADMIN_KEY = env_or (ADMIN_API_KEY e) ''dev-secret'',
              port = (case PORT e of
                        None \<Rightarrow> JNum 3000
                      | Some p \<Rightarrow> if p = [] then JNum 3000 else JStr p)\<rparr>)"

text \<open>The document of the \<open>Admin\<close> collection whose key is \<open>admin_settings\<close>.\<close>

record admin =
  password :: string
  updatedAt :: int

text \<open>A stored submission.  The model \<open>Submission\<close> is not among the sources at hand; a
  document is taken to hold the four fields the handler passes to the constructor and the
  identifier the datastore generates.\<close>

record submission =
  sub_id :: string
  name :: string
  company :: string
  email :: string
  message :: string

record state =
  SESSIONS :: sessions
  env :: process_env
  admin_settings :: "admin option"
  submissions :: "submission list"

text \<open>What a request finds outside the process: the clock, the connection state of the
  datastore client, whether each datastore call of the request throws, the identifier a
  successful \<open>save\<close> generates (\<open>None\<close>: \<open>save\<close> throws), and the output of
  \<open>crypto.randomBytes(24).toString('hex')\<close> (\<open>None\<close>: it throws).\<close>

record io =
  clock :: int
  readyState :: nat
  findOne_throws :: bool
  findOneAndUpdate_throws :: bool
  save_result :: "string option"
  randomBytes :: "string option"

section \<open>Admin credential\<close>

definition default_password :: string where
  "default_password = ''57d3e160e7b006b0359fa54440799a6b''"

definition Admin_findOne :: "io \<Rightarrow> state \<Rightarrow> js_error + admin option" where
  "Admin_findOne w st = (if findOne_throws w then Inl DbError else Inr (admin_settings st))"

text \<open>The configured fallback:
  \<open>process.env.ADMIN_PANEL_PASSWORD || '57d3e160e7b006b0359fa54440799a6b'\<close>.\<close>

definition fallback_password :: "state \<Rightarrow> string" where
  "fallback_password st = env_or (ADMIN_PANEL_PASSWORD (env st)) default_password"

text \<open>\<open>getAdminPassword\<close>\<close>

definition getAdminPassword :: "io \<Rightarrow> state \<Rightarrow> string" where
  "getAdminPassword w st =
     (let fallback = fallback_password st
      in if readyState w = 1
         then (case Admin_findOne w st of
                 Inl err \<Rightarrow> fallback
               | Inr adminSettings \<Rightarrow>
                   (case adminSettings of
                      None \<Rightarrow> fallback
                    | Some a \<Rightarrow> if password a \<noteq> [] then password a else fallback))
         else fallback)"

text \<open>\<open>Admin.findOneAndUpdate({key}, {password, updatedAt}, {upsert: true, new: true})\<close>:
  replaces or creates the singleton document, or throws.  A call that throws is taken to
  leave the document as it was; no statement below about a failed persist depends on
  that.\<close>

definition Admin_findOneAndUpdate :: "io \<Rightarrow> string \<Rightarrow> state \<Rightarrow> js_error + state" where
  "Admin_findOneAndUpdate w p st =
     (if findOneAndUpdate_throws w then Inl DbError
      else Inr (st\<lparr>admin_settings := Some \<lparr>password = p, updatedAt = clock w\<rparr>\<rparr>))"

section \<open>Handlers\<close>

text \<open>\<open>POST /admin/verify\<close>\<close>

definition admin_verify :: "io \<Rightarrow> request \<Rightarrow> state \<Rightarrow> response \<times> state" where
  "admin_verify w req st =
     (let p0 = (case body req of None \<Rightarrow> JUndefined | Some b \<Rightarrow> js_get b ''password'');
          pw = (if truthy p0 then p0 else JStr []);
          expected = getAdminPassword w st
      in if truthy pw \<and> pw = JStr expected
         then (case randomBytes w of
                 None \<Rightarrow> (\<lparr>status = 200, payload = OkBody, cookie_out = NoCookie\<rparr>, st)
               | Some rid \<Rightarrow>
                   (let (sid, ss) = createSession (clock w) rid (SESSIONS st)
                    in (\<lparr>status = 200, payload = OkBody, cookie_out = SetCookie sid\<rparr>,
                        st\<lparr>SESSIONS := ss\<rparr>)))
         else (unauthorized, st))"

text \<open>The handler of \<open>POST /admin/change-password\<close>, entered once the gate has passed.
  Destructuring an absent body throws, which the outer \<open>catch\<close> answers with 500.\<close>

definition change_password :: "io \<Rightarrow> request \<Rightarrow> state \<Rightarrow> response \<times> state" where
  "change_password w req st =
     (case body req of
        None \<Rightarrow> (internal_error, st)
      | Some b \<Rightarrow>
          (let currentPassword = js_get b ''currentPassword'';
               newPassword = js_get b ''newPassword'';
               expectedPassword = getAdminPassword w st
           in if \<not> truthy currentPassword \<or> \<not> truthy newPassword
              then (\<lparr>status = 400, payload = ErrorBody ''Current and new password required'',
                     cookie_out = NoCookie\<rparr>, st)
              else if currentPassword \<noteq> JStr expectedPassword
              then (\<lparr>status = 401, payload = ErrorBody ''Current password is incorrect'',
                     cookie_out = NoCookie\<rparr>, st)
              else (case length_lt newPassword 6 of
                      Inl err \<Rightarrow> (internal_error, st)
                    | Inr too_short \<Rightarrow>
                        if too_short
                        then (\<lparr>status = 400,
                               payload = ErrorBody ''New password must be at least 6 characters'',
                               cookie_out = NoCookie\<rparr>, st)
                        else
                          (let st1 = st\<lparr>env := (env st)
                                       \<lparr>ADMIN_PANEL_PASSWORD := Some (env_assign newPassword)\<rparr>\<rparr>;
                               st2 = (if readyState w = 1
                                      then (case Admin_findOneAndUpdate w (js_to_string newPassword) st1 of
                                              Inl dbErr \<Rightarrow> st1
                                            | Inr st' \<Rightarrow> st')
                                      else st1);
                               st3 = st2\<lparr>SESSIONS := Map.empty\<rparr>
                           in (\<lparr>status = 200,
                                payload = OkMessage ''Password changed successfully. Please log in again.'',
                                cookie_out = ClearCookie\<rparr>, st3)))))"

text \<open>The route \<open>POST /admin/change-password\<close>: the gate, then the handler.\<close>

definition post_admin_change_password ::
  "config \<Rightarrow> io \<Rightarrow> request \<Rightarrow> state \<Rightarrow> response \<times> state" where
  "post_admin_change_password cfg w req st =
     (case requireAdminAuth (ADMIN_KEY cfg) (clock w) req (SESSIONS st) of
        (Respond r, ss) \<Rightarrow> (r, st\<lparr>SESSIONS := ss\<rparr>)
      | (Next, ss) \<Rightarrow> change_password w req (st\<lparr>SESSIONS := ss\<rparr>))"

text \<open>\<open>c ? c.trim() : ''\<close>\<close>

definition trim_or_empty :: "jsval \<Rightarrow> js_error + string" where
  "trim_or_empty v = (if truthy v then trim_val v else Inr [])"

text \<open>The argument of \<open>new Submission\<close>: the four fields, evaluated in the order written;
  the first call that throws ends the evaluation.  The identifier is filled in by
  \<open>save\<close>.\<close>

definition submission_fields ::
  "jsval \<Rightarrow> jsval \<Rightarrow> jsval \<Rightarrow> jsval \<Rightarrow> js_error + (string \<Rightarrow> submission)" where
  "submission_fields name0 company0 email0 message0 =
     (case trim_val name0 of
        Inl e \<Rightarrow> Inl e
      | Inr n \<Rightarrow>
          (case trim_or_empty company0 of
             Inl e \<Rightarrow> Inl e
           | Inr c \<Rightarrow>
               (case trim_val email0 of
                  Inl e \<Rightarrow> Inl e
                | Inr m \<Rightarrow>
                    (case trim_or_empty message0 of
                       Inl e \<Rightarrow> Inl e
                     | Inr t \<Rightarrow>
                         Inr (\<lambda>i. \<lparr>sub_id = i, name = n, company = c, email = m,
                                    message = t\<rparr>)))))"

text \<open>\<open>POST /api/contact\<close>\<close>

definition api_contact :: "io \<Rightarrow> request \<Rightarrow> state \<Rightarrow> response \<times> state" where
  "api_contact w req st =
     (let b = (case body req of None \<Rightarrow> Map.empty | Some b0 \<Rightarrow> b0);
          name0 = js_get b ''name'';
          email0 = js_get b ''email'';
          company0 = js_get b ''company'';
          message0 = js_get b ''message''
      in if \<not> truthy email0 \<or> \<not> truthy name0
         then (\<lparr>status = 400, payload = ErrorBody ''name and email are required'',
                cookie_out = NoCookie\<rparr>, st)
         else (case submission_fields name0 company0 email0 message0 of
                 Inl err \<Rightarrow> (internal_error, st)
               | Inr doc \<Rightarrow>
                   (case save_result w of
                      None \<Rightarrow> (internal_error, st)
                    | Some i \<Rightarrow>
                        (\<lparr>status = 201, payload = CreatedBody i, cookie_out = NoCookie\<rparr>,
                         st\<lparr>submissions := submissions st @ [doc i]\<rparr>))))"

section \<open>Sequences of session operations\<close>

datatype session_op =
    OpIsValid int "string option"
  | OpTouch int string
  | OpAuthorize int request
  | OpLogout request

fun apply_op :: "string \<Rightarrow> session_op \<Rightarrow> sessions \<Rightarrow> sessions" where
  "apply_op k (OpIsValid now t) st = snd (isSessionValid now t st)"
| "apply_op k (OpTouch now t) st = (case touch now t st of Inl e \<Rightarrow> st | Inr st' \<Rightarrow> st')"
| "apply_op k (OpAuthorize now req) st = snd (requireAdminAuth k now req st)"
| "apply_op k (OpLogout req) st = snd (admin_logout req st)"

fun run_ops :: "string \<Rightarrow> session_op list \<Rightarrow> sessions \<Rightarrow> sessions" where
  "run_ops k [] st = st"
| "run_ops k (x # xs) st = run_ops k xs (apply_op k x st)"

section \<open>Vocabulary of the statements\<close>

text \<open>The text a body field stands for when it is stored: the string itself, and the empty
  string for a field that is absent or otherwise falsy.\<close>

definition text_of :: "jsval \<Rightarrow> string" where
  "text_of v = (case v of JStr s \<Rightarrow> s | _ \<Rightarrow> [])"

text \<open>The schema of the \<open>Admin\<close> model declares \<open>password\<close> as \<open>required: true\<close>: a
  persisted record, when there is one, has a non-empty password.\<close>

definition admin_record_ok :: "state \<Rightarrow> bool" where
  "admin_record_ok st =
     (case admin_settings st of None \<Rightarrow> True | Some a \<Rightarrow> password a \<noteq> [])"

section \<open>Properties of the session store\<close>

lemma isSessionValid_fst:
  "fst (isSessionValid now tok st) \<longleftrightarrow>
     (\<exists>t s. tok = Some t \<and> t \<noteq> [] \<and> st t = Some s \<and> now \<le> expires s)"
  by (auto simp: isSessionValid_def split: option.splits)

lemma isSessionValid_keeps_absent:
  "st t = None \<Longrightarrow> snd (isSessionValid now tok st) t = None"
  by (auto simp: isSessionValid_def split: option.splits)

lemma isSessionValid_valid_store:
  "fst (isSessionValid now tok st) \<Longrightarrow> snd (isSessionValid now tok st) = st"
  by (auto simp: isSessionValid_def split: option.splits if_splits)

lemma touch_keeps_absent:
  "st t = None \<Longrightarrow> touch now sid st = Inr st' \<Longrightarrow> st' t = None"
  by (auto simp: touch_def split: option.splits)

lemma revoke_keeps_absent:
  "st t = None \<Longrightarrow> revoke tok st t = None"
  by (auto simp: revoke_def split: option.splits)

lemma revoke_idem: "revoke tok (revoke tok st) = revoke tok st"
  by (auto simp: revoke_def split: option.splits)

lemma revoke_funpow: "(revoke tok ^^ Suc n) st = revoke tok st"
  by (induction n) (simp_all add: revoke_idem)

lemma revoke_invalid: "\<not> fst (isSessionValid now tok (revoke tok st))"
  by (auto simp: isSessionValid_fst revoke_def)

lemma createSession_valid:
  "rid \<noteq> [] \<Longrightarrow> fst (isSessionValid now (Some rid) (snd (createSession now rid st)))"
  by (simp add: createSession_def isSessionValid_fst SESSION_TTL_MS_def)

section \<open>Properties of the auth gate\<close>

lemma api_key_ok_iff:
  "api_key_ok k req \<longleftrightarrow> (\<exists>key. x_api_key req = Some key \<and> key \<noteq> [] \<and> key = k)"
  by (auto simp: api_key_ok_def split: option.splits)

lemma requireAdminAuth_key:
  "api_key_ok k req \<Longrightarrow> requireAdminAuth k now req st = (Next, st)"
  by (simp add: requireAdminAuth_def)

lemma requireAdminAuth_no_cookie:
  "\<not> api_key_ok k req \<Longrightarrow> admin_sid_cookie req = None
     \<Longrightarrow> requireAdminAuth k now req st = (Respond unauthorized, st)"
  by (simp add: requireAdminAuth_def)

lemma requireAdminAuth_invalid:
  "\<not> api_key_ok k req \<Longrightarrow> admin_sid_cookie req = Some m
     \<Longrightarrow> \<not> fst (isSessionValid now (sid_of m) st)
     \<Longrightarrow> requireAdminAuth k now req st
           = (Respond unauthorized, snd (isSessionValid now (sid_of m) st))"
  by (cases "isSessionValid now (sid_of m) st") (simp add: requireAdminAuth_def Let_def)

lemma requireAdminAuth_valid:
  "\<not> api_key_ok k req \<Longrightarrow> admin_sid_cookie req = Some m
     \<Longrightarrow> sid_of m = Some t \<Longrightarrow> t \<noteq> [] \<Longrightarrow> st t = Some s \<Longrightarrow> now \<le> expires s
     \<Longrightarrow> requireAdminAuth k now req st
           = (Next, st(t \<mapsto> s\<lparr>expires := now + SESSION_TTL_MS\<rparr>))"
  by (simp add: requireAdminAuth_def Let_def isSessionValid_def touch_def)

lemma requireAdminAuth_respond:
  "requireAdminAuth k now req st = (Respond r, ss) \<Longrightarrow> status r \<noteq> 200"
  by (auto simp: requireAdminAuth_def Let_def unauthorized_def internal_error_def
           split: option.splits sum.splits if_splits prod.splits)

lemma requireAdminAuth_keeps_absent:
  "st t = None \<Longrightarrow> snd (requireAdminAuth k now req st) t = None"
  by (auto simp: requireAdminAuth_def Let_def isSessionValid_def touch_def api_key_ok_def
           split: option.splits prod.splits sum.splits if_splits)

lemma admin_logout_keeps_absent:
  "st t = None \<Longrightarrow> snd (admin_logout req st) t = None"
  by (auto simp: admin_logout_def revoke_keeps_absent split: option.splits)

lemma apply_op_keeps_absent:
  "st t = None \<Longrightarrow> apply_op k x st t = None"
  by (cases x)
     (auto simp: isSessionValid_keeps_absent requireAdminAuth_keeps_absent
                 admin_logout_keeps_absent touch_keeps_absent split: sum.splits)

lemma run_ops_keeps_absent:
  "st t = None \<Longrightarrow> run_ops k xs st t = None"
  by (induction xs arbitrary: st) (auto simp: apply_op_keeps_absent)

section \<open>Properties of the admin credential and of the password change\<close>

lemma env_or_nonempty: "d \<noteq> [] \<Longrightarrow> env_or v d \<noteq> []"
  by (simp add: env_or_def split: option.splits)

lemma default_password_nonempty: "default_password \<noteq> []"
  by (simp add: default_password_def)

lemma getAdminPassword_nonempty: "getAdminPassword w st \<noteq> []"
  by (simp add: getAdminPassword_def fallback_password_def Let_def env_or_nonempty
           default_password_nonempty
           split: sum.splits option.splits)

lemma dec_nat_nonempty: "dec_nat n \<noteq> []"
  by (subst dec_nat.simps) simp

lemma js_to_string_nonempty: "truthy v \<Longrightarrow> js_to_string v \<noteq> []"
  by (cases v) (simp_all add: dec_nat_nonempty)

lemma change_password_success:
  assumes "body req = Some b"
    and "js_get b ''currentPassword'' = JStr (getAdminPassword w st)"
    and "truthy (js_get b ''newPassword'')"
    and "length_lt (js_get b ''newPassword'') 6 = Inr False"
  shows "change_password w req st =
     (\<lparr>status = 200,
       payload = OkMessage ''Password changed successfully. Please log in again.'',
       cookie_out = ClearCookie\<rparr>,
      (if readyState w = 1 \<and> \<not> findOneAndUpdate_throws w
       then st\<lparr>env := (env st)\<lparr>ADMIN_PANEL_PASSWORD := Some (env_assign (js_get b ''newPassword''))\<rparr>,
               admin_settings := Some \<lparr>password = js_to_string (js_get b ''newPassword''),
                                        updatedAt = clock w\<rparr>,
               SESSIONS := Map.empty\<rparr>
       else st\<lparr>env := (env st)\<lparr>ADMIN_PANEL_PASSWORD := Some (env_assign (js_get b ''newPassword''))\<rparr>,
               SESSIONS := Map.empty\<rparr>))"
  using assms getAdminPassword_nonempty [of w st]
  by (simp add: change_password_def env_assign_def Let_def Admin_findOneAndUpdate_def)

lemma change_password_ok_clears:
  "status (fst (change_password w req st)) = 200
     \<Longrightarrow> SESSIONS (snd (change_password w req st)) = Map.empty"
  by (auto simp: change_password_def env_assign_def Let_def internal_error_def
           split: option.splits sum.splits if_splits)

lemma change_password_not_ok_keeps:
  "status (fst (change_password w req st)) \<noteq> 200 \<Longrightarrow> snd (change_password w req st) = st"
  by (auto simp: change_password_def env_assign_def Let_def internal_error_def
           split: option.splits sum.splits if_splits)

text \<open>No handler persists an empty password: the persisted record stays well-formed.\<close>

lemma change_password_record_ok:
  "admin_record_ok st \<Longrightarrow> admin_record_ok (snd (change_password w req st))"
  by (auto simp: change_password_def Let_def admin_record_ok_def Admin_findOneAndUpdate_def
                 js_to_string_nonempty
           split: option.splits sum.splits if_splits)

lemma post_admin_change_password_record_ok:
  "admin_record_ok st \<Longrightarrow> admin_record_ok (snd (post_admin_change_password cfg w req st))"
proof -
  assume ok: "admin_record_ok st"
  obtain g ss where gate: "requireAdminAuth (ADMIN_KEY cfg) (clock w) req (SESSIONS st) = (g, ss)"
    by (cases "requireAdminAuth (ADMIN_KEY cfg) (clock w) req (SESSIONS st)")
  from ok have ok': "admin_record_ok (st\<lparr>SESSIONS := ss\<rparr>)"
    by (simp add: admin_record_ok_def)
  show ?thesis
  proof (cases g)
    case Next
    with gate show ?thesis
      using change_password_record_ok [OF ok', of w req]
      by (simp add: post_admin_change_password_def)
  next
    case (Respond r)
    with gate ok' show ?thesis
      by (simp add: post_admin_change_password_def)
  qed
qed

lemma admin_verify_record_ok:
  "admin_record_ok st \<Longrightarrow> admin_record_ok (snd (admin_verify w req st))"
  by (auto simp: admin_verify_def Let_def admin_record_ok_def createSession_def
           split: option.splits)

lemma api_contact_record_ok:
  "admin_record_ok st \<Longrightarrow> admin_record_ok (snd (api_contact w req st))"
  by (auto simp: api_contact_def Let_def admin_record_ok_def
           split: option.splits sum.splits)

text \<open>A login with the current password creates a session that is valid at once; any
  other password creates none.\<close>

lemma admin_verify_creates_session:
  assumes "body req = Some b"
    and "js_get b ''password'' = JStr (getAdminPassword w st)"
    and "randomBytes w = Some rid" and "rid \<noteq> []"
  shows "fst (admin_verify w req st) = \<lparr>status = 200, payload = OkBody, cookie_out = SetCookie rid\<rparr>
       \<and> fst (isSessionValid (clock w) (Some rid) (SESSIONS (snd (admin_verify w req st))))"
  using assms getAdminPassword_nonempty [of w st]
  by (simp add: admin_verify_def Let_def createSession_def isSessionValid_fst SESSION_TTL_MS_def)

lemma admin_verify_rejects:
  assumes "body req = Some b"
    and "js_get b ''password'' \<noteq> JStr (getAdminPassword w st)"
  shows "admin_verify w req st = (unauthorized, st)"
  using assms getAdminPassword_nonempty [of w st]
  by (auto simp: admin_verify_def Let_def)

section \<open>Properties of the contact form\<close>

lemma js_trim_Nil: "js_trim [] = []"
  by (simp add: js_trim_def)

lemma trim_or_empty_text:
  "(\<exists>c. v = JStr c) \<or> \<not> truthy v \<Longrightarrow> trim_or_empty v = Inr (js_trim (text_of v))"
  by (cases v) (auto simp: trim_or_empty_def text_of_def js_trim_Nil)

lemma api_contact_400:
  "status (fst (api_contact w req st)) = 400 \<longleftrightarrow>
     \<not> truthy (js_get (case body req of None \<Rightarrow> Map.empty | Some b0 \<Rightarrow> b0) ''email'')
     \<or> \<not> truthy (js_get (case body req of None \<Rightarrow> Map.empty | Some b0 \<Rightarrow> b0) ''name'')"
  by (auto simp: api_contact_def Let_def internal_error_def split: sum.splits option.splits)

lemma api_contact_400_state:
  "status (fst (api_contact w req st)) = 400 \<Longrightarrow> snd (api_contact w req st) = st"
  by (auto simp: api_contact_def Let_def internal_error_def split: sum.splits option.splits if_splits)

lemma api_contact_created:
  assumes "b = (case body req of None \<Rightarrow> Map.empty | Some b0 \<Rightarrow> b0)"
    and "js_get b ''name'' = JStr n" and "n \<noteq> []"
    and "js_get b ''email'' = JStr e" and "e \<noteq> []"
    and "(\<exists>c. js_get b ''company'' = JStr c) \<or> \<not> truthy (js_get b ''company'')"
    and "(\<exists>t. js_get b ''message'' = JStr t) \<or> \<not> truthy (js_get b ''message'')"
    and "save_result w = Some i"
  shows "api_contact w req st =
     (\<lparr>status = 201, payload = CreatedBody i, cookie_out = NoCookie\<rparr>,
      st\<lparr>submissions := submissions st @
           [\<lparr>sub_id = i, name = js_trim n,
             company = js_trim (text_of (js_get b ''company'')),
             email = js_trim e,
             message = js_trim (text_of (js_get b ''message''))\<rparr>]\<rparr>)"
  using assms(1-5,8) trim_or_empty_text [OF assms(6)] trim_or_empty_text [OF assms(7)]
  by (simp add: api_contact_def Let_def submission_fields_def)

section \<open>Properties of the start-up\<close>

lemma startup_requires_uri:
  "(\<exists>c. startup e = Listening c) \<longleftrightarrow> (\<exists>u. MONGODB_URI e = Some u \<and> u \<noteq> [])"
  by (auto simp: startup_def split: option.splits)

section \<open>The claims\<close>

subsection \<open>C1: a failed persist during a password change\<close>

text \<open>
  C1 as the code has it.  The handler assigns the new password to
  \<open>process.env.ADMIN_PANEL_PASSWORD\<close> before it attempts the persist, and a persist that
  throws is caught inside the handler.  So for every password change that passes the
  validation checks and whose persist fails, the handler still answers 200, the
  process-wide fallback holds the new password as the process environment stores it (its
  string form up to the first NUL), and the session store is cleared.
\<close>

theorem change_password_persist_failure:
  assumes "body req = Some b"
    and "js_get b ''currentPassword'' = JStr (getAdminPassword w st)"
    and "truthy (js_get b ''newPassword'')"
    and "length_lt (js_get b ''newPassword'') 6 = Inr False"
    and "readyState w = 1" and "findOneAndUpdate_throws w"
  shows "fst (change_password w req st) =
           \<lparr>status = 200,
            payload = OkMessage ''Password changed successfully. Please log in again.'',
            cookie_out = ClearCookie\<rparr>
       \<and> ADMIN_PANEL_PASSWORD (env (snd (change_password w req st)))
           = Some (env_assign (js_get b ''newPassword''))
       \<and> SESSIONS (snd (change_password w req st)) = Map.empty"
  using assms by (simp add: change_password_success)

theorem change_password_persist_failure_witness:
  "fst (change_password
     \<lparr>clock = 5, readyState = 1, findOne_throws = False, findOneAndUpdate_throws = True,
      save_result = None, randomBytes = None\<rparr>
     \<lparr>x_api_key = Some ''k'', cookie = None,
      body = Some [''currentPassword'' \<mapsto> JStr ''dbpass1'', ''newPassword'' \<mapsto> JStr ''newpass'']\<rparr>
     \<lparr>SESSIONS = [''ab'' \<mapsto> \<lparr>createdAt = 0, expires = 20\<rparr>],
      env = \<lparr>MONGODB_URI = Some ''mongodb://db'', PORT = None, ADMIN_API_KEY = Some ''k'',
             ADMIN_PANEL_PASSWORD = Some ''oldpass''\<rparr>,
      admin_settings = Some \<lparr>password = ''dbpass1'', updatedAt = 1\<rparr>,
      submissions = []\<rparr>)
   = \<lparr>status = 200,
      payload = OkMessage ''Password changed successfully. Please log in again.'',
      cookie_out = ClearCookie\<rparr>
   \<and> ADMIN_PANEL_PASSWORD (env (snd (change_password
     \<lparr>clock = 5, readyState = 1, findOne_throws = False, findOneAndUpdate_throws = True,
      save_result = None, randomBytes = None\<rparr>
     \<lparr>x_api_key = Some ''k'', cookie = None,
      body = Some [''currentPassword'' \<mapsto> JStr ''dbpass1'', ''newPassword'' \<mapsto> JStr ''newpass'']\<rparr>
     \<lparr>SESSIONS = [''ab'' \<mapsto> \<lparr>createdAt = 0, expires = 20\<rparr>],
      env = \<lparr>MONGODB_URI = Some ''mongodb://db'', PORT = None, ADMIN_API_KEY = Some ''k'',
             ADMIN_PANEL_PASSWORD = Some ''oldpass''\<rparr>,
      admin_settings = Some \<lparr>password = ''dbpass1'', updatedAt = 1\<rparr>,
      submissions = []\<rparr>))) = Some ''newpass''
   \<and> SESSIONS (snd (change_password
     \<lparr>clock = 5, readyState = 1, findOne_throws = False, findOneAndUpdate_throws = True,
      save_result = None, randomBytes = None\<rparr>
     \<lparr>x_api_key = Some ''k'', cookie = None,
      body = Some [''currentPassword'' \<mapsto> JStr ''dbpass1'', ''newPassword'' \<mapsto> JStr ''newpass'']\<rparr>
     \<lparr>SESSIONS = [''ab'' \<mapsto> \<lparr>createdAt = 0, expires = 20\<rparr>],
      env = \<lparr>MONGODB_URI = Some ''mongodb://db'', PORT = None, ADMIN_API_KEY = Some ''k'',
             ADMIN_PANEL_PASSWORD = Some ''oldpass''\<rparr>,
      admin_settings = Some \<lparr>password = ''dbpass1'', updatedAt = 1\<rparr>,
      submissions = []\<rparr>)) = Map.empty"
proof -
  let ?w = "\<lparr>clock = 5, readyState = 1, findOne_throws = False, findOneAndUpdate_throws = True,
      save_result = None, randomBytes = None\<rparr>"
  let ?b = "[''currentPassword'' \<mapsto> JStr ''dbpass1'', ''newPassword'' \<mapsto> JStr ''newpass'']"
  let ?req = "\<lparr>x_api_key = Some ''k'', cookie = None, body = Some ?b\<rparr>"
  let ?st = "\<lparr>SESSIONS = [''ab'' \<mapsto> \<lparr>createdAt = 0, expires = 20\<rparr>],
      env = \<lparr>MONGODB_URI = Some ''mongodb://db'', PORT = None, ADMIN_API_KEY = Some ''k'',
             ADMIN_PANEL_PASSWORD = Some ''oldpass''\<rparr>,
      admin_settings = Some \<lparr>password = ''dbpass1'', updatedAt = 1\<rparr>,
      submissions = []\<rparr>"
  have h1: "body ?req = Some ?b" by simp
  have h2: "js_get ?b ''currentPassword'' = JStr (getAdminPassword ?w ?st)"
    by (simp add: js_get_def getAdminPassword_def Admin_findOne_def)
  have h3: "truthy (js_get ?b ''newPassword'')" by (simp add: js_get_def)
  have h4: "length_lt (js_get ?b ''newPassword'') 6 = Inr False" by (simp add: js_get_def)
  have h5: "readyState ?w = 1" by simp
  have h6: "findOneAndUpdate_throws ?w" by simp
  have e: "env_assign (js_get ?b ''newPassword'') = ''newpass''"
    by (simp add: js_get_def env_assign_def)
  show ?thesis
    using change_password_persist_failure [OF h1 h2 h3 h4 h5 h6] e by simp
qed

text \<open>C1 as stated fails: with the datastore connected and the update throwing, the
  answer is 200 and the fallback has changed from \<open>oldpass\<close> to \<open>newpass\<close>.\<close>

theorem change_password_persist_failure_counterexample:
  "change_password
     \<lparr>clock = 5, readyState = 1, findOne_throws = False, findOneAndUpdate_throws = True,
      save_result = None, randomBytes = None\<rparr>
     \<lparr>x_api_key = Some ''k'', cookie = None,
      body = Some [''currentPassword'' \<mapsto> JStr ''oldpass'', ''newPassword'' \<mapsto> JStr ''newpass'']\<rparr>
     \<lparr>SESSIONS = Map.empty,
      env = \<lparr>MONGODB_URI = Some ''mongodb://db'', PORT = None, ADMIN_API_KEY = Some ''k'',
             ADMIN_PANEL_PASSWORD = Some ''oldpass''\<rparr>,
      admin_settings = None,
      submissions = []\<rparr>
   = (\<lparr>status = 200,
       payload = OkMessage ''Password changed successfully. Please log in again.'',
       cookie_out = ClearCookie\<rparr>,
      \<lparr>SESSIONS = Map.empty,
       env = \<lparr>MONGODB_URI = Some ''mongodb://db'', PORT = None, ADMIN_API_KEY = Some ''k'',
              ADMIN_PANEL_PASSWORD = Some ''newpass''\<rparr>,
       admin_settings = None,
       submissions = []\<rparr>)"
  by (simp add: change_password_def env_assign_def Let_def getAdminPassword_def fallback_password_def Admin_findOne_def
        Admin_findOneAndUpdate_def env_or_def js_get_def)

subsection \<open>C2: validity of a session\<close>

text \<open>
  C2 as the code has it.  \<open>isSessionValid\<close> returns true iff the token is a non-empty
  string, has an entry in the store, and the clock is not after the entry's \<open>expires\<close>
  (the instant \<open>expires\<close> itself still counts as valid); when the entry exists and the
  clock is after \<open>expires\<close>, the entry is evicted and the result is false; for an absent
  or empty token the result is false and the store is untouched.
\<close>

theorem isSessionValid_spec:
  "(fst (isSessionValid now tok st) \<longleftrightarrow>
      (\<exists>t s. tok = Some t \<and> t \<noteq> [] \<and> st t = Some s \<and> now \<le> expires s))
   \<and> (\<forall>t s. tok = Some t \<and> t \<noteq> [] \<and> st t = Some s \<and> expires s < now
         \<longrightarrow> isSessionValid now tok st = (False, st(t := None)))
   \<and> (tok = None \<or> tok = Some [] \<longrightarrow> isSessionValid now tok st = (False, st))"
  by (auto simp: isSessionValid_def split: option.splits)

theorem isSessionValid_spec_witness:
  "fst (isSessionValid 10 (Some ''ab'') [''ab'' \<mapsto> \<lparr>createdAt = 0, expires = 20\<rparr>])
   \<and> isSessionValid 30 (Some ''ab'') [''ab'' \<mapsto> \<lparr>createdAt = 0, expires = 20\<rparr>]
       = (False, [''ab'' \<mapsto> \<lparr>createdAt = 0, expires = 20\<rparr>](''ab'' := None))
   \<and> isSessionValid 10 None [''ab'' \<mapsto> \<lparr>createdAt = 0, expires = 20\<rparr>]
       = (False, [''ab'' \<mapsto> \<lparr>createdAt = 0, expires = 20\<rparr>])"
  using isSessionValid_spec [of 10 "Some ''ab''" "[''ab'' \<mapsto> \<lparr>createdAt = 0, expires = 20\<rparr>]"]
        isSessionValid_spec [of 30 "Some ''ab''" "[''ab'' \<mapsto> \<lparr>createdAt = 0, expires = 20\<rparr>]"]
        isSessionValid_spec [of 10 None "[''ab'' \<mapsto> \<lparr>createdAt = 0, expires = 20\<rparr>]"]
  by simp

text \<open>C2 as stated fails at the boundary: at the instant \<open>expires\<close> the clock is not
  strictly before it, yet the session is reported valid and stays in the store.\<close>

theorem isSessionValid_boundary_counterexample:
  "isSessionValid 3600000 (Some ''ab'') [''ab'' \<mapsto> \<lparr>createdAt = 0, expires = 3600000\<rparr>]
     = (True, [''ab'' \<mapsto> \<lparr>createdAt = 0, expires = 3600000\<rparr>])
   \<and> \<not> ((3600000::int) < expires \<lparr>createdAt = 0, expires = 3600000\<rparr>)"
  by (simp add: isSessionValid_def)

subsection \<open>C3: creating a submission\<close>

text \<open>
  C3 as the code has it.  The request is answered 400, with nothing persisted, iff
  \<open>name\<close> or \<open>email\<close> is absent or empty before any trimming.  Otherwise, when
  \<open>name\<close> and \<open>email\<close> are strings, \<open>company\<close> and \<open>message\<close> are strings or absent,
  and the datastore accepts the record, the record persisted holds every text field
  trimmed and the answer is 201 with the generated identifier.
\<close>

theorem api_contact_spec:
  assumes "b = (case body req of None \<Rightarrow> Map.empty | Some b0 \<Rightarrow> b0)"
  shows "(status (fst (api_contact w req st)) = 400 \<longleftrightarrow>
            \<not> truthy (js_get b ''email'') \<or> \<not> truthy (js_get b ''name''))
       \<and> (status (fst (api_contact w req st)) = 400 \<longrightarrow> snd (api_contact w req st) = st)
       \<and> (\<forall>n e i. js_get b ''name'' = JStr n \<and> n \<noteq> [] \<and> js_get b ''email'' = JStr e \<and> e \<noteq> []
             \<and> ((\<exists>c. js_get b ''company'' = JStr c) \<or> \<not> truthy (js_get b ''company''))
             \<and> ((\<exists>t. js_get b ''message'' = JStr t) \<or> \<not> truthy (js_get b ''message''))
             \<and> save_result w = Some i
           \<longrightarrow> api_contact w req st =
                 (\<lparr>status = 201, payload = CreatedBody i, cookie_out = NoCookie\<rparr>,
                  st\<lparr>submissions := submissions st @
                       [\<lparr>sub_id = i, name = js_trim n,
                         company = js_trim (text_of (js_get b ''company'')),
                         email = js_trim e,
                         message = js_trim (text_of (js_get b ''message''))\<rparr>]\<rparr>))"
proof (intro conjI allI impI)
  show "status (fst (api_contact w req st)) = 400 \<longleftrightarrow>
            \<not> truthy (js_get b ''email'') \<or> \<not> truthy (js_get b ''name'')"
    unfolding assms by (rule api_contact_400)
next
  assume "status (fst (api_contact w req st)) = 400"
  then show "snd (api_contact w req st) = st"
    by (rule api_contact_400_state)
next
  fix n e i
  assume h: "js_get b ''name'' = JStr n \<and> n \<noteq> [] \<and> js_get b ''email'' = JStr e \<and> e \<noteq> []
             \<and> ((\<exists>c. js_get b ''company'' = JStr c) \<or> \<not> truthy (js_get b ''company''))
             \<and> ((\<exists>t. js_get b ''message'' = JStr t) \<or> \<not> truthy (js_get b ''message''))
             \<and> save_result w = Some i"
  show "api_contact w req st =
                 (\<lparr>status = 201, payload = CreatedBody i, cookie_out = NoCookie\<rparr>,
                  st\<lparr>submissions := submissions st @
                       [\<lparr>sub_id = i, name = js_trim n,
                         company = js_trim (text_of (js_get b ''company'')),
                         email = js_trim e,
                         message = js_trim (text_of (js_get b ''message''))\<rparr>]\<rparr>)"
    using h by (intro api_contact_created [OF assms]) simp_all
qed

theorem api_contact_spec_witness:
  "api_contact
     \<lparr>clock = 0, readyState = 1, findOne_throws = False, findOneAndUpdate_throws = False,
      save_result = Some ''id1'', randomBytes = None\<rparr>
     \<lparr>x_api_key = None, cookie = None,
      body = Some [''name'' \<mapsto> JStr '' Ann '', ''email'' \<mapsto> JStr ''a@b.com '',
                   ''message'' \<mapsto> JStr ''hi'']\<rparr>
     \<lparr>SESSIONS = Map.empty,
      env = \<lparr>MONGODB_URI = Some ''mongodb://db'', PORT = None, ADMIN_API_KEY = None,
             ADMIN_PANEL_PASSWORD = None\<rparr>,
      admin_settings = None,
      submissions = []\<rparr>
   = (\<lparr>status = 201, payload = CreatedBody ''id1'', cookie_out = NoCookie\<rparr>,
      \<lparr>SESSIONS = Map.empty,
       env = \<lparr>MONGODB_URI = Some ''mongodb://db'', PORT = None, ADMIN_API_KEY = None,
              ADMIN_PANEL_PASSWORD = None\<rparr>,
       admin_settings = None,
       submissions = [\<lparr>sub_id = ''id1'', name = ''Ann'', company = [], email = ''a@b.com'',
                       message = ''hi''\<rparr>]\<rparr>)"
proof -
  let ?b = "[''name'' \<mapsto> JStr '' Ann '', ''email'' \<mapsto> JStr ''a@b.com '',
             ''message'' \<mapsto> JStr ''hi'']"
  let ?req = "\<lparr>x_api_key = None, cookie = None, body = Some ?b\<rparr>"
  have h: "?b = (case body ?req of None \<Rightarrow> Map.empty | Some b0 \<Rightarrow> b0)" by simp
  show ?thesis
    using api_contact_spec [OF h, of
        "\<lparr>clock = 0, readyState = 1, findOne_throws = False, findOneAndUpdate_throws = False,
          save_result = Some ''id1'', randomBytes = None\<rparr>"
        "\<lparr>SESSIONS = Map.empty,
          env = \<lparr>MONGODB_URI = Some ''mongodb://db'', PORT = None, ADMIN_API_KEY = None,
                 ADMIN_PANEL_PASSWORD = None\<rparr>,
          admin_settings = None,
          submissions = []\<rparr>"]
    by (simp add: js_get_def text_of_def js_trim_def is_js_space_def)
qed

text \<open>C3 as stated fails: a name of two spaces is empty after trimming, yet the request
  is not answered 400.  When the datastore accepts the record, a submission with an empty
  name is persisted and the answer is 201; when it does not, the answer is 500.\<close>

theorem api_contact_blank_name_counterexample:
  "api_contact
     \<lparr>clock = 0, readyState = 1, findOne_throws = False, findOneAndUpdate_throws = False,
      save_result = Some ''id1'', randomBytes = None\<rparr>
     \<lparr>x_api_key = None, cookie = None,
      body = Some [''name'' \<mapsto> JStr ''  '', ''email'' \<mapsto> JStr ''a@b.com'']\<rparr>
     \<lparr>SESSIONS = Map.empty,
      env = \<lparr>MONGODB_URI = Some ''mongodb://db'', PORT = None, ADMIN_API_KEY = None,
             ADMIN_PANEL_PASSWORD = None\<rparr>,
      admin_settings = None,
      submissions = []\<rparr>
   = (\<lparr>status = 201, payload = CreatedBody ''id1'', cookie_out = NoCookie\<rparr>,
      \<lparr>SESSIONS = Map.empty,
       env = \<lparr>MONGODB_URI = Some ''mongodb://db'', PORT = None, ADMIN_API_KEY = None,
              ADMIN_PANEL_PASSWORD = None\<rparr>,
       admin_settings = None,
       submissions = [\<lparr>sub_id = ''id1'', name = [], company = [], email = ''a@b.com'',
                       message = []\<rparr>]\<rparr>)
   \<and> status (fst (api_contact
     \<lparr>clock = 0, readyState = 1, findOne_throws = False, findOneAndUpdate_throws = False,
      save_result = None, randomBytes = None\<rparr>
     \<lparr>x_api_key = None, cookie = None,
      body = Some [''name'' \<mapsto> JStr ''  '', ''email'' \<mapsto> JStr ''a@b.com'']\<rparr>
     \<lparr>SESSIONS = Map.empty,
      env = \<lparr>MONGODB_URI = Some ''mongodb://db'', PORT = None, ADMIN_API_KEY = None,
             ADMIN_PANEL_PASSWORD = None\<rparr>,
      admin_settings = None,
      submissions = []\<rparr>)) = 500
   \<and> js_trim ''  '' = []"
  by (simp add: api_contact_def Let_def submission_fields_def trim_or_empty_def js_get_def
        js_trim_def is_js_space_def internal_error_def)

subsection \<open>C4: the authorization decision\<close>

text \<open>
  C4.  Whatever \<open>requireAdminAuth\<close> returns, it lets the request through iff the
  presented key is non-empty and equal to the configured admin key, or the cookie header
  presents a session token for which \<open>isSessionValid\<close> is true.  When the key decides,
  the store is untouched; when the session decides, the store afterwards holds that
  token's entry with \<open>expires\<close> set to the clock plus the TTL; in every other case the
  answer is 401 \<open>unauthorized\<close>.
\<close>

theorem requireAdminAuth_spec:
  assumes run: "requireAdminAuth k now req st = (g, st')"
  shows "(g = Next \<longleftrightarrow>
            (\<exists>key. x_api_key req = Some key \<and> key \<noteq> [] \<and> key = k)
            \<or> (\<exists>m. admin_sid_cookie req = Some m \<and> fst (isSessionValid now (sid_of m) st)))
       \<and> ((\<exists>key. x_api_key req = Some key \<and> key \<noteq> [] \<and> key = k) \<longrightarrow> st' = st)
       \<and> (\<not> (\<exists>key. x_api_key req = Some key \<and> key \<noteq> [] \<and> key = k) \<and> g = Next
            \<longrightarrow> (\<exists>m t s. admin_sid_cookie req = Some m \<and> sid_of m = Some t \<and> st t = Some s
                    \<and> st' = st(t \<mapsto> s\<lparr>expires := now + SESSION_TTL_MS\<rparr>)))
       \<and> (g \<noteq> Next \<longrightarrow> g = Respond unauthorized)"
proof (cases "api_key_ok k req")
  case True
  with run have "g = Next" "st' = st"
    by (simp_all add: requireAdminAuth_key)
  with True show ?thesis
    by (auto simp: api_key_ok_iff)
next
  case nokey: False
  show ?thesis
  proof (cases "admin_sid_cookie req")
    case None
    with run nokey have "g = Respond unauthorized"
      by (simp add: requireAdminAuth_no_cookie)
    with nokey None show ?thesis
      by (auto simp: api_key_ok_iff)
  next
    case (Some m)
    show ?thesis
    proof (cases "fst (isSessionValid now (sid_of m) st)")
      case False
      with run nokey Some have "g = Respond unauthorized"
        by (simp add: requireAdminAuth_invalid)
      with nokey Some False show ?thesis
        by (auto simp: api_key_ok_iff)
    next
      case True
      then obtain t s where ts: "sid_of m = Some t" "t \<noteq> []" "st t = Some s" "now \<le> expires s"
        by (auto simp: isSessionValid_fst)
      with run nokey Some
      have res: "g = Next" "st' = st(t \<mapsto> s\<lparr>expires := now + SESSION_TTL_MS\<rparr>)"
        by (simp_all add: requireAdminAuth_valid)
      have "\<exists>m. admin_sid_cookie req = Some m \<and> fst (isSessionValid now (sid_of m) st)"
        using Some True by blast
      moreover have "\<exists>m t s. admin_sid_cookie req = Some m \<and> sid_of m = Some t \<and> st t = Some s
                    \<and> st' = st(t \<mapsto> s\<lparr>expires := now + SESSION_TTL_MS\<rparr>)"
        using Some ts res by blast
      moreover have "\<not> (\<exists>key. x_api_key req = Some key \<and> key \<noteq> [] \<and> key = k)"
        using nokey by (simp add: api_key_ok_iff)
      ultimately show ?thesis
        using res(1) by blast
    qed
  qed
qed

theorem requireAdminAuth_spec_witness:
  "requireAdminAuth ''key'' 10 \<lparr>x_api_key = None, cookie = Some ''a=1; admin_sid=ab'', body = None\<rparr>
       [''ab'' \<mapsto> \<lparr>createdAt = 0, expires = 20\<rparr>]
     = (Next, [''ab'' \<mapsto> \<lparr>createdAt = 0, expires = 3600010\<rparr>])
   \<and> (\<exists>m. admin_sid_cookie \<lparr>x_api_key = None, cookie = Some ''a=1; admin_sid=ab'', body = None\<rparr> = Some m
          \<and> fst (isSessionValid 10 (sid_of m) [''ab'' \<mapsto> \<lparr>createdAt = 0, expires = 20\<rparr>]))"
proof -
  have h: "requireAdminAuth ''key'' 10
             \<lparr>x_api_key = None, cookie = Some ''a=1; admin_sid=ab'', body = None\<rparr>
             [''ab'' \<mapsto> \<lparr>createdAt = 0, expires = 20\<rparr>]
           = (Next, [''ab'' \<mapsto> \<lparr>createdAt = 0, expires = 3600010\<rparr>])"
    by (simp add: requireAdminAuth_def api_key_ok_def admin_sid_cookie_def sid_of_def
          js_trim_def is_js_space_def startsWith_def isSessionValid_def touch_def
          SESSION_TTL_MS_def Let_def)
  show ?thesis
    using requireAdminAuth_spec [OF h] h by simp
qed

subsection \<open>C5: a password change logs every session out\<close>

text \<open>
  C5.  Whenever the route \<open>POST /admin/change-password\<close> answers 200, the session store
  it leaves is empty, so no token, whatever it was before, is valid at any later
  clock.
\<close>

theorem change_password_clears_sessions:
  assumes "post_admin_change_password cfg w req st = (resp, st')"
    and "status resp = 200"
  shows "SESSIONS st' = Map.empty \<and> \<not> fst (isSessionValid now' tok (SESSIONS st'))"
proof -
  obtain g ss where gate: "requireAdminAuth (ADMIN_KEY cfg) (clock w) req (SESSIONS st) = (g, ss)"
    by (cases "requireAdminAuth (ADMIN_KEY cfg) (clock w) req (SESSIONS st)")
  have "g = Next"
  proof (cases g)
    case Next
    then show ?thesis .
  next
    case (Respond r)
    with gate assms have "r = resp"
      by (simp add: post_admin_change_password_def)
    with gate Respond assms(2) show ?thesis
      using requireAdminAuth_respond by blast
  qed
  with gate assms(1) have run: "change_password w req (st\<lparr>SESSIONS := ss\<rparr>) = (resp, st')"
    by (simp add: post_admin_change_password_def)
  with assms(2) have "SESSIONS st' = Map.empty"
    using change_password_ok_clears [of w req "st\<lparr>SESSIONS := ss\<rparr>"] by simp
  then show ?thesis
    by (simp add: isSessionValid_fst)
qed

theorem change_password_clears_sessions_witness:
  "\<not> fst (isSessionValid 6 (Some ''ab'')
        (SESSIONS (snd (post_admin_change_password \<lparr>ADMIN_KEY = ''k'', port = JNum 3000\<rparr>
     \<lparr>clock = 5, readyState = 1, findOne_throws = False, findOneAndUpdate_throws = False,
      save_result = None, randomBytes = None\<rparr>
     \<lparr>x_api_key = Some ''k'', cookie = None,
      body = Some [''currentPassword'' \<mapsto> JStr ''oldpass'', ''newPassword'' \<mapsto> JStr ''newpass'']\<rparr>
     \<lparr>SESSIONS = [''ab'' \<mapsto> \<lparr>createdAt = 0, expires = 20\<rparr>],
      env = \<lparr>MONGODB_URI = Some ''mongodb://db'', PORT = None, ADMIN_API_KEY = Some ''k'',
             ADMIN_PANEL_PASSWORD = Some ''oldpass''\<rparr>,
      admin_settings = None,
      submissions = []\<rparr>))))
   \<and> fst (isSessionValid 6 (Some ''ab'') [''ab'' \<mapsto> \<lparr>createdAt = 0, expires = 20\<rparr>])"
proof -
  let ?cfg = "\<lparr>ADMIN_KEY = ''k'', port = JNum 3000\<rparr>"
  let ?w = "\<lparr>clock = 5, readyState = 1, findOne_throws = False, findOneAndUpdate_throws = False,
      save_result = None, randomBytes = None\<rparr>"
  let ?req = "\<lparr>x_api_key = Some ''k'', cookie = None,
      body = Some [''currentPassword'' \<mapsto> JStr ''oldpass'', ''newPassword'' \<mapsto> JStr ''newpass'']\<rparr>"
  let ?st = "\<lparr>SESSIONS = [''ab'' \<mapsto> \<lparr>createdAt = 0, expires = 20\<rparr>],
      env = \<lparr>MONGODB_URI = Some ''mongodb://db'', PORT = None, ADMIN_API_KEY = Some ''k'',
             ADMIN_PANEL_PASSWORD = Some ''oldpass''\<rparr>,
      admin_settings = None,
      submissions = []\<rparr>"
  have h1: "post_admin_change_password ?cfg ?w ?req ?st
            = (fst (post_admin_change_password ?cfg ?w ?req ?st),
               snd (post_admin_change_password ?cfg ?w ?req ?st))"
    by simp
  have h2: "status (fst (post_admin_change_password ?cfg ?w ?req ?st)) = 200"
    by (simp add: post_admin_change_password_def requireAdminAuth_def api_key_ok_def
          change_password_def env_assign_def Let_def getAdminPassword_def fallback_password_def Admin_findOne_def
          Admin_findOneAndUpdate_def env_or_def js_get_def)
  have h3: "fst (isSessionValid 6 (Some ''ab'') [''ab'' \<mapsto> \<lparr>createdAt = 0, expires = 20\<rparr>])"
    by (simp add: isSessionValid_def)
  have c: "\<not> fst (isSessionValid 6 (Some ''ab'')
                (SESSIONS (snd (post_admin_change_password ?cfg ?w ?req ?st))))"
    using change_password_clears_sessions [OF h1 h2, of 6 "Some ''ab''"] by (rule conjunct2)
  show ?thesis
    using c h3 by (rule conjI)
qed

subsection \<open>C6: an evicted session never comes back\<close>

text \<open>
  C6.  A token with no entry in the store (evicted on expiry, revoked, or cleared) has no
  entry after any sequence of validity checks, refreshes, authorizations and logouts,
  with any arguments and at any clocks, and so is never reported valid again.
\<close>

theorem evicted_session_stays_invalid:
  "st t = None \<Longrightarrow>
     run_ops k xs st t = None \<and> \<not> fst (isSessionValid now (Some t) (run_ops k xs st))"
  by (simp add: run_ops_keeps_absent isSessionValid_fst)

theorem evicted_session_stays_invalid_witness:
  "snd (isSessionValid 30 (Some ''ab'') [''ab'' \<mapsto> \<lparr>createdAt = 0, expires = 20\<rparr>]) ''ab'' = None
   \<and> \<not> fst (isSessionValid 10 (Some ''ab'')
        (run_ops ''key''
           [OpAuthorize 10 \<lparr>x_api_key = None, cookie = Some ''admin_sid=ab'', body = None\<rparr>,
            OpTouch 11 ''ab'',
            OpLogout \<lparr>x_api_key = None, cookie = Some ''admin_sid=ab'', body = None\<rparr>,
            OpIsValid 12 (Some ''ab'')]
           (snd (isSessionValid 30 (Some ''ab'') [''ab'' \<mapsto> \<lparr>createdAt = 0, expires = 20\<rparr>]))))"
proof -
  have h: "snd (isSessionValid 30 (Some ''ab'') [''ab'' \<mapsto> \<lparr>createdAt = 0, expires = 20\<rparr>]) ''ab''
           = None"
    by (simp add: isSessionValid_def)
  show ?thesis
    using evicted_session_stays_invalid
            [where st = "snd (isSessionValid 30 (Some ''ab'')
                               [''ab'' \<mapsto> \<lparr>createdAt = 0, expires = 20\<rparr>])"
               and t = "''ab''" and k = "''key''" and now = 10
               and xs = "[OpAuthorize 10 \<lparr>x_api_key = None, cookie = Some ''admin_sid=ab'', body = None\<rparr>,
                          OpTouch 11 ''ab'',
                          OpLogout \<lparr>x_api_key = None, cookie = Some ''admin_sid=ab'', body = None\<rparr>,
                          OpIsValid 12 (Some ''ab'')]"] h
    by blast
qed

subsection \<open>C7: looking up the admin password\<close>

text \<open>
  C7.  \<open>getAdminPassword\<close> is a total function to strings: no branch of it raises.  On a
  well-formed datastore (the persisted record, if any, has the non-empty password the
  schema requires): if the datastore is connected, the lookup does not throw, and the
  singleton record exists, the result is that record's password; in every other case
  (not connected, the lookup throws, or no record) the result is the configured
  fallback.
\<close>

theorem getAdminPassword_spec:
  assumes "admin_record_ok st"
  shows "(readyState w = 1 \<and> \<not> findOne_throws w \<and> admin_settings st = Some a
            \<longrightarrow> getAdminPassword w st = password a)
       \<and> (readyState w \<noteq> 1 \<or> findOne_throws w \<or> admin_settings st = None
            \<longrightarrow> getAdminPassword w st = fallback_password st)"
  using assms
  by (auto simp: getAdminPassword_def Admin_findOne_def Let_def admin_record_ok_def)

theorem getAdminPassword_spec_witness:
  "getAdminPassword
     \<lparr>clock = 0, readyState = 1, findOne_throws = False, findOneAndUpdate_throws = False,
      save_result = None, randomBytes = None\<rparr>
     \<lparr>SESSIONS = Map.empty,
      env = \<lparr>MONGODB_URI = Some ''mongodb://db'', PORT = None, ADMIN_API_KEY = None,
             ADMIN_PANEL_PASSWORD = Some ''fallback''\<rparr>,
      admin_settings = Some \<lparr>password = ''dbpass'', updatedAt = 0\<rparr>,
      submissions = []\<rparr>
   = ''dbpass''
   \<and> getAdminPassword
     \<lparr>clock = 0, readyState = 0, findOne_throws = False, findOneAndUpdate_throws = False,
      save_result = None, randomBytes = None\<rparr>
     \<lparr>SESSIONS = Map.empty,
      env = \<lparr>MONGODB_URI = Some ''mongodb://db'', PORT = None, ADMIN_API_KEY = None,
             ADMIN_PANEL_PASSWORD = Some ''fallback''\<rparr>,
      admin_settings = Some \<lparr>password = ''dbpass'', updatedAt = 0\<rparr>,
      submissions = []\<rparr>
   = ''fallback''"
proof -
  let ?st = "\<lparr>SESSIONS = Map.empty,
      env = \<lparr>MONGODB_URI = Some ''mongodb://db'', PORT = None, ADMIN_API_KEY = None,
             ADMIN_PANEL_PASSWORD = Some ''fallback''\<rparr>,
      admin_settings = Some \<lparr>password = ''dbpass'', updatedAt = 0\<rparr>,
      submissions = []\<rparr>"
  have ok: "admin_record_ok ?st"
    by (simp add: admin_record_ok_def)
  have f: "fallback_password ?st = ''fallback''"
    by (simp add: fallback_password_def env_or_def)
  show ?thesis
    using getAdminPassword_spec [OF ok, of
       "\<lparr>clock = 0, readyState = 1, findOne_throws = False, findOneAndUpdate_throws = False,
         save_result = None, randomBytes = None\<rparr>"
       "\<lparr>password = ''dbpass'', updatedAt = 0\<rparr>"]
      getAdminPassword_spec [OF ok, of
       "\<lparr>clock = 0, readyState = 0, findOne_throws = False, findOneAndUpdate_throws = False,
         save_result = None, randomBytes = None\<rparr>"
       "\<lparr>password = ''dbpass'', updatedAt = 0\<rparr>"] f
    by simp
qed

subsection \<open>C8: logout and revocation\<close>

text \<open>
  C8.  The logout handler always answers 200 \<open>{ok: true}\<close>; revoking twice is the same as
  revoking once, for the revocation alone and for the whole handler; after one or more
  revocations of a token it is not valid; and after a logout the token the cookie
  presented is not valid.
\<close>

theorem logout_revoke_idempotent:
  "fst (admin_logout req st) = \<lparr>status = 200, payload = OkBody, cookie_out = ClearCookie\<rparr>
   \<and> revoke tok (revoke tok st) = revoke tok st
   \<and> snd (admin_logout req (snd (admin_logout req st))) = snd (admin_logout req st)
   \<and> \<not> fst (isSessionValid now tok ((revoke tok ^^ Suc n) st))
   \<and> (\<forall>m. admin_sid_cookie req = Some m
        \<longrightarrow> \<not> fst (isSessionValid now (sid_of m) (snd (admin_logout req st))))"
  unfolding revoke_funpow
  by (auto simp: admin_logout_def revoke_idem revoke_invalid split: option.splits)

theorem logout_revoke_idempotent_witness:
  "admin_sid_cookie \<lparr>x_api_key = None, cookie = Some ''admin_sid=ab'', body = None\<rparr>
     = Some ''admin_sid=ab''
   \<and> \<not> fst (isSessionValid 5 (sid_of ''admin_sid=ab'')
          (snd (admin_logout \<lparr>x_api_key = None, cookie = Some ''admin_sid=ab'', body = None\<rparr>
                  [''ab'' \<mapsto> \<lparr>createdAt = 0, expires = 20\<rparr>])))
   \<and> fst (isSessionValid 5 (sid_of ''admin_sid=ab'') [''ab'' \<mapsto> \<lparr>createdAt = 0, expires = 20\<rparr>])"
proof -
  have h: "admin_sid_cookie \<lparr>x_api_key = None, cookie = Some ''admin_sid=ab'', body = None\<rparr>
           = Some ''admin_sid=ab''"
    by (simp add: admin_sid_cookie_def js_trim_def is_js_space_def startsWith_def)
  have v: "fst (isSessionValid 5 (sid_of ''admin_sid=ab'') [''ab'' \<mapsto> \<lparr>createdAt = 0, expires = 20\<rparr>])"
    by (simp add: isSessionValid_def sid_of_def)
  show ?thesis
    using logout_revoke_idempotent
            [of "\<lparr>x_api_key = None, cookie = Some ''admin_sid=ab'', body = None\<rparr>"
                "[''ab'' \<mapsto> \<lparr>createdAt = 0, expires = 20\<rparr>]" None 5 0] h v
    by blast
qed

subsection \<open>C9: configuration at start-up\<close>

text \<open>
  C9.  With a connection string and neither \<open>ADMIN_API_KEY\<close> nor
  \<open>ADMIN_PANEL_PASSWORD\<close> in the environment, the process starts; the gate then accepts
  the key \<open>dev-secret\<close> and the admin password is the built-in constant.
\<close>

theorem startup_without_admin_secrets:
  "startup \<lparr>MONGODB_URI = Some ''mongodb://db'', PORT = None, ADMIN_API_KEY = None,
            ADMIN_PANEL_PASSWORD = None\<rparr>
     = Listening \<lparr>ADMIN_KEY = ''dev-secret'', port = JNum 3000\<rparr>
   \<and> requireAdminAuth ''dev-secret'' 0
        \<lparr>x_api_key = Some ''dev-secret'', cookie = None, body = None\<rparr> Map.empty
     = (Next, Map.empty)
   \<and> getAdminPassword
        \<lparr>clock = 0, readyState = 1, findOne_throws = False, findOneAndUpdate_throws = False,
         save_result = None, randomBytes = None\<rparr>
        \<lparr>SESSIONS = Map.empty,
         env = \<lparr>MONGODB_URI = Some ''mongodb://db'', PORT = None, ADMIN_API_KEY = None,
                ADMIN_PANEL_PASSWORD = None\<rparr>,
         admin_settings = None,
         submissions = []\<rparr>
     = ''57d3e160e7b006b0359fa54440799a6b''"
  by (simp add: startup_def env_or_def requireAdminAuth_def api_key_ok_def getAdminPassword_def fallback_password_def
        Admin_findOne_def default_password_def)

subsection \<open>C10: a rejected password change\<close>

text \<open>
  C10.  When a password change fails a validation check (the current or the new password
  is missing, the current password is not the resolved admin password, or the new
  password is a string of fewer than 6 characters), the handler answers 400 or 401 and
  returns the state it was given: sessions, process environment and persisted record.
\<close>

theorem change_password_validation_failure:
  assumes "body req = Some b"
    and "\<not> truthy (js_get b ''currentPassword'') \<or> \<not> truthy (js_get b ''newPassword'')
         \<or> js_get b ''currentPassword'' \<noteq> JStr (getAdminPassword w st)
         \<or> (\<exists>p. js_get b ''newPassword'' = JStr p \<and> length p < 6)"
  shows "snd (change_password w req st) = st
       \<and> status (fst (change_password w req st)) \<in> {400, 401}"
  using assms
  by (auto simp: change_password_def env_assign_def Let_def)

theorem change_password_validation_failure_witness:
  "change_password
     \<lparr>clock = 5, readyState = 1, findOne_throws = False, findOneAndUpdate_throws = False,
      save_result = None, randomBytes = None\<rparr>
     \<lparr>x_api_key = Some ''k'', cookie = None,
      body = Some [''currentPassword'' \<mapsto> JStr ''oldpass'', ''newPassword'' \<mapsto> JStr ''abc'']\<rparr>
     \<lparr>SESSIONS = [''ab'' \<mapsto> \<lparr>createdAt = 0, expires = 20\<rparr>],
      env = \<lparr>MONGODB_URI = Some ''mongodb://db'', PORT = None, ADMIN_API_KEY = Some ''k'',
             ADMIN_PANEL_PASSWORD = Some ''oldpass''\<rparr>,
      admin_settings = None,
      submissions = []\<rparr>
   = (\<lparr>status = 400, payload = ErrorBody ''New password must be at least 6 characters'',
       cookie_out = NoCookie\<rparr>,
      \<lparr>SESSIONS = [''ab'' \<mapsto> \<lparr>createdAt = 0, expires = 20\<rparr>],
      env = \<lparr>MONGODB_URI = Some ''mongodb://db'', PORT = None, ADMIN_API_KEY = Some ''k'',
             ADMIN_PANEL_PASSWORD = Some ''oldpass''\<rparr>,
      admin_settings = None,
      submissions = []\<rparr>)"
proof -
  let ?w = "\<lparr>clock = 5, readyState = 1, findOne_throws = False, findOneAndUpdate_throws = False,
      save_result = None, randomBytes = None\<rparr>"
  let ?b = "[''currentPassword'' \<mapsto> JStr ''oldpass'', ''newPassword'' \<mapsto> JStr ''abc'']"
  let ?req = "\<lparr>x_api_key = Some ''k'', cookie = None, body = Some ?b\<rparr>"
  let ?st = "\<lparr>SESSIONS = [''ab'' \<mapsto> \<lparr>createdAt = 0, expires = 20\<rparr>],
      env = \<lparr>MONGODB_URI = Some ''mongodb://db'', PORT = None, ADMIN_API_KEY = Some ''k'',
             ADMIN_PANEL_PASSWORD = Some ''oldpass''\<rparr>,
      admin_settings = None,
      submissions = []\<rparr>"
  have h1: "body ?req = Some ?b" by simp
  have h2: "\<not> truthy (js_get ?b ''currentPassword'') \<or> \<not> truthy (js_get ?b ''newPassword'')
         \<or> js_get ?b ''currentPassword'' \<noteq> JStr (getAdminPassword ?w ?st)
         \<or> (\<exists>p. js_get ?b ''newPassword'' = JStr p \<and> length p < 6)"
    by (simp add: js_get_def)
  have r: "fst (change_password ?w ?req ?st)
           = \<lparr>status = 400, payload = ErrorBody ''New password must be at least 6 characters'',
               cookie_out = NoCookie\<rparr>"
    by (simp add: change_password_def env_assign_def Let_def getAdminPassword_def fallback_password_def Admin_findOne_def
          env_or_def js_get_def)
  show ?thesis
    using change_password_validation_failure [OF h1 h2] r
    by (simp add: prod_eq_iff)
qed

end
